theory Spec2Isabelle
  imports Main "HOL-Library.Sublist"
begin

section \<open>Aries Avalon: the identifier lookup service (main.go)\<close>

text \<open>
  The service answers \<^verbatim>\<open>GET /api/aries/:id\<close> by querying a Solr index over HTTP and
  reshaping the single matching document, and \<^verbatim>\<open>GET /healthcheck\<close> by pinging the
  same index. The handlers are embedded as pure functions of
  \<^item> the process configuration (the three global strings set from the flags),
  \<^item> the network: what \<^verbatim>\<open>client.Get\<close> yields for each URL,
  \<^item> the JSON decoder: what \<^verbatim>\<open>json.Unmarshal\<close> stores into a \<^verbatim>\<open>solrFullResponse\<close>.
  The general results hold for every decoder; the decoder of \<^verbatim>\<open>encoding/json\<close>, which
  decodes into the value the target already holds, is modelled as one of them.
  The three URLs one lookup may request differ pairwise, so a function from URLs to
  outcomes describes every run. Each handler returns what it writes to the gin context;
  \<^verbatim>\<open>ariesLookup\<close> also returns the URLs it requested, in order.
\<close>

subsection \<open>Data model\<close>

text \<open>The globals \<^verbatim>\<open>solrURL\<close>, \<^verbatim>\<open>solrCore\<close> and \<^verbatim>\<open>avalonURL\<close>, read-only after start-up.\<close>

record config =
  solrURL :: string
  solrCore :: string
  avalonURL :: string

record serviceURL =
  URL :: string
  Protocol :: string

text \<open>The response of \<^verbatim>\<open>/api/aries/:id\<close>; a Go slice that was never appended to is \<open>[]\<close>.\<close>

record aries =
  Identifiers :: "string list"
  ServiceURL :: "serviceURL list"
  AccessURL :: "string list"
  AdminURL :: "string list"
  MetadataURL :: "string list"
  MasterFile :: "string list"
  DerivativeFile :: "string list"

text \<open>
  A Solr document. The field \<^verbatim>\<open>DerivativeFile\<close> of the Go struct is \<open>DerivativeFile_ssi\<close>
  here (its JSON tag), since \<open>aries\<close> has a field of the same name.
\<close>

record solrDoc =
  ID :: string
  Model :: "string list"
  PartOf :: "string list"
  FileLocation :: string
  IdentifierSSIM :: "string list"
  DerivativeFile_ssi :: string

record solrHeader =
  Status :: int
  QTime :: int

record solrResponse =
  NumFound :: int
  Start :: int
  Docs :: "solrDoc list"

record solrFullResponse =
  ResponseHeader :: solrHeader
  Response :: solrResponse

text \<open>The zero value of \<^verbatim>\<open>var resp solrFullResponse\<close> and of \<^verbatim>\<open>var out aries\<close>.\<close>

definition zero_solrFullResponse :: solrFullResponse where
  "zero_solrFullResponse =
     \<lparr>ResponseHeader = \<lparr>Status = 0, QTime = 0\<rparr>,
      Response = \<lparr>NumFound = 0, Start = 0, Docs = []\<rparr>\<rparr>"

definition zero_aries :: aries where
  "zero_aries =
     \<lparr>Identifiers = [], ServiceURL = [], AccessURL = [], AdminURL = [],
      MetadataURL = [], MasterFile = [], DerivativeFile = []\<rparr>"

text \<open>
  What a handler does with its gin context: \<^verbatim>\<open>c.String(code, text)\<close>,
  \<^verbatim>\<open>c.JSON(code, value)\<close>, or a run-time panic (an index out of range) that leaves
  the handler before anything is written.
\<close>

datatype 'a reply = c_String nat string | c_JSON nat 'a | panic

text \<open>
  The outcome of \<^verbatim>\<open>client.Get(url)\<close>: an error with its text (connection failure,
  timeout after the client's ten seconds), or a response with its status code and body.
\<close>

datatype http_result = Get_error string | Get_response nat string

type_synonym network = "string \<Rightarrow> http_result"

text \<open>
  \<^verbatim>\<open>json.Unmarshal(data, &resp)\<close> decodes into the value \<open>resp\<close> already holds and
  returns an error or nil. The decoder of non-empty input is a parameter; it yields the
  error (if any) and the value \<open>resp\<close> holds afterwards. On the empty input
  \<^verbatim>\<open>encoding/json\<close> reports a syntax error before it stores anything.
\<close>

type_synonym decoder = "string \<Rightarrow> solrFullResponse \<Rightarrow> string option \<times> solrFullResponse"

definition json_Unmarshal ::
  "decoder \<Rightarrow> string \<Rightarrow> solrFullResponse \<Rightarrow> string option \<times> solrFullResponse" where
  "json_Unmarshal dec data v =
     (if data = [] then (Some ''unexpected end of JSON input'', v) else dec data v)"

subsection \<open>What encoding/json stores\<close>

text \<open>
  The decoder of \<^verbatim>\<open>encoding/json\<close> for the shape of \<^verbatim>\<open>solrFullResponse\<close>. A body is
  parsed into the keys it has (\<open>None\<close> for a key that is absent); a body that is not
  JSON of this shape gives the error text. Decoding stores each key that is present and
  leaves every other field of the target as it was. A JSON array is decoded element by
  element into the slice the field already holds: the element at a position below the
  old length is decoded into the document already there, so that document's fields
  without a key in the new element stay; positions from the old length on start from
  the zero document (the slice has not been longer before); the slice ends with the
  array. A list of strings is replaced by the array.
\<close>

record json_doc =
  j_id :: "string option"
  j_has_model_ssim :: "string list option"
  j_isPartOf_ssim :: "string list option"
  j_file_location_ssi :: "string option"
  j_identifier_ssim :: "string list option"
  j_derivativeFile_ssi :: "string option"

record json_body =
  j_status :: "int option"
  j_QTime :: "int option"
  j_numFound :: "int option"
  j_start :: "int option"
  j_docs :: "json_doc list option"

type_synonym parser = "string \<Rightarrow> string + json_body"

definition zero_solrDoc :: solrDoc where
  "zero_solrDoc =
     \<lparr>ID = [], Model = [], PartOf = [], FileLocation = [], IdentifierSSIM = [],
      DerivativeFile_ssi = []\<rparr>"

definition store :: "'a option \<Rightarrow> 'a \<Rightarrow> 'a" where
  "store key old = (case key of None \<Rightarrow> old | Some v \<Rightarrow> v)"

definition decode_doc :: "json_doc \<Rightarrow> solrDoc \<Rightarrow> solrDoc" where
  "decode_doc j d =
     \<lparr>ID = store (j_id j) (ID d),
      Model = store (j_has_model_ssim j) (Model d),
      PartOf = store (j_isPartOf_ssim j) (PartOf d),
      FileLocation = store (j_file_location_ssi j) (FileLocation d),
      IdentifierSSIM = store (j_identifier_ssim j) (IdentifierSSIM d),
      DerivativeFile_ssi = store (j_derivativeFile_ssi j) (DerivativeFile_ssi d)\<rparr>"

fun decode_docs :: "json_doc list \<Rightarrow> solrDoc list \<Rightarrow> solrDoc list" where
  "decode_docs [] old = []"
| "decode_docs (j # js) [] = decode_doc j zero_solrDoc # decode_docs js []"
| "decode_docs (j # js) (d # ds) = decode_doc j d # decode_docs js ds"

definition decode_body :: "json_body \<Rightarrow> solrFullResponse \<Rightarrow> solrFullResponse" where
  "decode_body j v =
     \<lparr>ResponseHeader =
        \<lparr>Status = store (j_status j) (Status (ResponseHeader v)),
         QTime = store (j_QTime j) (QTime (ResponseHeader v))\<rparr>,
      Response =
        \<lparr>NumFound = store (j_numFound j) (NumFound (Response v)),
         Start = store (j_start j) (Start (Response v)),
         Docs = (case j_docs j of
                   None \<Rightarrow> Docs (Response v)
                 | Some js \<Rightarrow> decode_docs js (Docs (Response v)))\<rparr>\<rparr>"

definition go_decoder :: "parser \<Rightarrow> decoder" where
  "go_decoder parse data v =
     (case parse data of
        Inl e \<Rightarrow> (Some e, v)
      | Inr j \<Rightarrow> (None, decode_body j v))"

text \<open>
  The non-empty \<^verbatim>\<open>derivativeFile_ssi\<close> values of the records of a body, in the order of
  the body.
\<close>

definition file_of :: "json_doc \<Rightarrow> string list" where
  "file_of j = (case j_derivativeFile_ssi j of
                  None \<Rightarrow> []
                | Some f \<Rightarrow> if f = [] then [] else [f])"

definition returned_files :: "json_body \<Rightarrow> string list" where
  "returned_files j = (case j_docs j of None \<Rightarrow> [] | Some js \<Rightarrow> concat (map file_of js))"

subsection \<open>url.QueryEscape\<close>

text \<open>
  \<^verbatim>\<open>net/url\<close>'s \<^verbatim>\<open>QueryEscape\<close>, byte by byte: letters, digits and \<^verbatim>\<open>- _ . ~\<close> are kept,
  a space becomes \<^verbatim>\<open>+\<close>, every other byte becomes \<^verbatim>\<open>%XX\<close> in upper-case hexadecimal.
\<close>

definition shouldEscape :: "char \<Rightarrow> bool" where
  "shouldEscape c =
     (let n = (of_char c :: nat) in
      if (97 \<le> n \<and> n \<le> 122) \<or> (65 \<le> n \<and> n \<le> 90) \<or> (48 \<le> n \<and> n \<le> 57) then False
      else if c = CHR ''-'' \<or> c = CHR ''_'' \<or> c = CHR ''.'' \<or> c = CHR ''~'' then False
      else True)"

definition upperhex :: string where
  "upperhex = ''0123456789ABCDEF''"

definition escape_byte :: "char \<Rightarrow> string" where
  "escape_byte c =
     (if c = CHR '' '' then ''+''
      else if shouldEscape c then
        [CHR ''%'', upperhex ! ((of_char c :: nat) div 16), upperhex ! ((of_char c :: nat) mod 16)]
      else [c])"

definition QueryEscape :: "string \<Rightarrow> string" where
  "QueryEscape s = concat (map escape_byte s)"

subsection \<open>getAPIResponse\<close>

text \<open>
  Returns the pair \<^verbatim>\<open>(string, error)\<close> of the Go function: the body and nil for status
  200, the empty string and an error otherwise. For a status other than 200 the error's
  text is the body (\<^verbatim>\<open>errors.New(respString)\<close>).
\<close>

definition getAPIResponse :: "network \<Rightarrow> string \<Rightarrow> string \<times> string option" where
  "getAPIResponse net url =
     (case net url of
        Get_error err \<Rightarrow> ([], Some err)
      | Get_response statusCode respString \<Rightarrow>
          if statusCode \<noteq> 200 then ([], Some respString) else (respString, None))"

subsection \<open>healthCheckHandler\<close>

definition pingURL :: "config \<Rightarrow> string" where
  "pingURL cfg = solrURL cfg @ ''/'' @ solrCore cfg @ ''/select?q=*:*&wt=json&rows=0''"

definition healthCheckHandler :: "config \<Rightarrow> network \<Rightarrow> (string \<rightharpoonup> string) reply" where
  "healthCheckHandler cfg net =
     (let hcMap = Map.empty(''AriesAvalon'' \<mapsto> ''true'');
          url = pingURL cfg;
          (_, err) = getAPIResponse net url;
          hcMap = (if err \<noteq> None then hcMap(''Avalon'' \<mapsto> ''false'')
                   else hcMap(''Avalon'' \<mapsto> ''true''))
      in c_JSON 200 hcMap)"

subsection \<open>ariesLookup\<close>

text \<open>
  \<^verbatim>\<open>fmt.Sprintf("%s/%s/select?q=%s&wt=json&indent=true%s", solrURL, solrCore, qs, fl)\<close>,
  the URL of every query of the lookup.
\<close>

definition selectURL :: "config \<Rightarrow> string \<Rightarrow> string \<Rightarrow> string" where
  "selectURL cfg qs fl =
     solrURL cfg @ ''/'' @ solrCore cfg @ ''/select?q='' @ qs @ ''&wt=json&indent=true'' @ fl"

text \<open>\<^verbatim>\<open>fmt.Sprintf("<field>:\"%s\"", value)\<close>: the field, a colon, the value in double quotes.\<close>

definition quoted_query :: "string \<Rightarrow> string \<Rightarrow> string" where
  "quoted_query field v = field @ '':'' @ [CHR 0x22] @ v @ [CHR 0x22]"

definition lookup_fl :: string where
  "lookup_fl = ''&fl=id,identifier_ssim,file_location_ssi,has_model_ssim,isPartOf_ssim''"

definition derivative_fl :: string where
  "derivative_fl = ''&fl=id,derivativeFile_ssi''"

text \<open>
  The local variables \<^verbatim>\<open>qs\<close>, \<^verbatim>\<open>urlStr\<close> and \<^verbatim>\<open>resp\<close> where the search (the primary
  query and, after it, the fallback) leaves them, and the URLs requested so far.
\<close>

record lookup =
  qs :: string
  urlStr :: string
  resp :: solrFullResponse
  calls :: "string list"

text \<open>
  Lines 295 to 330: the query on \<^verbatim>\<open>id\<close> and, when it has no hit, the query on
  \<^verbatim>\<open>identifier_ssim\<close>. \<open>Inl\<close> is an early \<^verbatim>\<open>return\<close> with the URLs requested and the
  reply written; \<open>Inr\<close> carries the locals on to the rest of the handler. The error of
  the second \<^verbatim>\<open>getAPIResponse\<close> is discarded, as in the source.
\<close>

definition ariesLookup_search ::
  "config \<Rightarrow> network \<Rightarrow> decoder \<Rightarrow> string \<Rightarrow> (string list \<times> aries reply) + lookup" where
  "ariesLookup_search cfg net dec passedID =
     (let qs1 = QueryEscape (quoted_query ''id'' passedID);
          fl = lookup_fl;
          urlStr1 = selectURL cfg qs1 fl;
          (respStr, err) = getAPIResponse net urlStr1
      in case err of
           Some e \<Rightarrow> Inl ([urlStr1], c_String 404 e)
         | None \<Rightarrow>
            (case json_Unmarshal dec respStr zero_solrFullResponse of
               (Some marshallErr, _) \<Rightarrow> Inl ([urlStr1], c_String 404 (passedID @ '' not found''))
             | (None, resp1) \<Rightarrow>
                 if NumFound (Response resp1) = 0 then
                   (let qs2 = QueryEscape (quoted_query ''identifier_ssim'' passedID);
                        urlStr2 = selectURL cfg qs2 fl;
                        (respStr2, _) = getAPIResponse net urlStr2
                    in case json_Unmarshal dec respStr2 resp1 of
                         (Some marshallErr, _) \<Rightarrow>
                           Inl ([urlStr1, urlStr2], c_String 404 (passedID @ '' not found''))
                       | (None, resp2) \<Rightarrow>
                           if NumFound (Response resp2) = 0 then
                             Inl ([urlStr1, urlStr2], c_String 404 (passedID @ '' not found''))
                           else Inr \<lparr>qs = qs2, urlStr = urlStr2, resp = resp2,
                                     calls = [urlStr1, urlStr2]\<rparr>)
                 else Inr \<lparr>qs = qs1, urlStr = urlStr1, resp = resp1, calls = [urlStr1]\<rparr>))"

text \<open>The loop of lines 369 to 373 over the documents of the derivative query.\<close>

fun collect_derivatives :: "string list \<Rightarrow> solrDoc list \<Rightarrow> string list" where
  "collect_derivatives acc [] = acc"
| "collect_derivatives acc (d # ds) =
     (if DerivativeFile_ssi d \<noteq> [] then collect_derivatives (acc @ [DerivativeFile_ssi d]) ds
      else collect_derivatives acc ds)"

text \<open>
  Lines 338 to 377: the response built from \<^verbatim>\<open>resp.Response.Docs[0]\<close>. Each of
  \<^verbatim>\<open>Docs[0]\<close>, \<^verbatim>\<open>doc.Model[0]\<close> and \<^verbatim>\<open>doc.PartOf[0]\<close> panics on an empty slice. The
  service URL is built from \<^verbatim>\<open>qs\<close> before the derivative query overwrites it.
\<close>

definition ariesLookup_derive ::
  "config \<Rightarrow> network \<Rightarrow> decoder \<Rightarrow> lookup \<Rightarrow> string list \<times> aries reply" where
  "ariesLookup_derive cfg net dec st =
     (case Docs (Response (resp st)) of
        [] \<Rightarrow> (calls st, panic)
      | doc # _ \<Rightarrow>
         (let out = zero_aries;
              out = out\<lparr>Identifiers := Identifiers out @ [ID doc]\<rparr>;
              out = out\<lparr>Identifiers := Identifiers out @ IdentifierSSIM doc\<rparr>;
              out = (if FileLocation doc \<noteq> []
                     then out\<lparr>MasterFile := MasterFile out @ [FileLocation doc]\<rparr> else out);
              svcURL = \<lparr>URL = solrURL cfg @ ''/'' @ solrCore cfg @ ''/select?q='' @ qs st,
                        Protocol = ''avalon-index''\<rparr>;
              out = out\<lparr>ServiceURL := ServiceURL out @ [svcURL]\<rparr>
          in case Model doc of
               [] \<Rightarrow> (calls st, panic)
             | model0 # _ \<Rightarrow>
                 if model0 = ''MediaObject'' then
                   (let out = out\<lparr>MetadataURL := MetadataURL out @
                                [avalonURL cfg @ ''/media_objects/'' @ ID doc @ ''/content/descMetadata'']\<rparr>;
                        out = out\<lparr>AccessURL := AccessURL out @
                                [avalonURL cfg @ ''/media_objects/'' @ ID doc]\<rparr>;
                        out = out\<lparr>AdminURL := AdminURL out @
                                [avalonURL cfg @ ''/media_objects/'' @ ID doc @ ''/edit'']\<rparr>
                    in (calls st, c_JSON 200 out))
                 else
                   (case PartOf doc of
                      [] \<Rightarrow> (calls st, panic)
                    | partOf0 # _ \<Rightarrow>
                       (let out = out\<lparr>AccessURL := AccessURL out @
                                   [avalonURL cfg @ ''/media_objects/'' @ partOf0 @ ''/section/'' @ ID doc]\<rparr>;
                            out = out\<lparr>AdminURL := AdminURL out @
                                   [avalonURL cfg @ ''/media_objects/'' @ partOf0 @ ''/section/'' @ ID doc
                                      @ ''/edit'']\<rparr>;
                            qs3 = QueryEscape (quoted_query ''isDerivationOf_ssim'' (ID doc));
                            fl = derivative_fl;
                            urlStr3 = selectURL cfg qs3 fl;
                            (respStr, _) = getAPIResponse net urlStr3;
                            (marshallErr, resp3) = json_Unmarshal dec respStr (resp st);
                            out = (if marshallErr = None
                                   then out\<lparr>DerivativeFile :=
                                          collect_derivatives (DerivativeFile out) (Docs (Response resp3))\<rparr>
                                   else out)
                        in (calls st @ [urlStr3], c_JSON 200 out)))))"

text \<open>
  The whole handler: the search, the test of lines 332 to 336 for more than one hit,
  then the response.
\<close>

definition ariesLookup ::
  "config \<Rightarrow> network \<Rightarrow> decoder \<Rightarrow> string \<Rightarrow> string list \<times> aries reply" where
  "ariesLookup cfg net dec passedID =
     (case ariesLookup_search cfg net dec passedID of
        Inl early \<Rightarrow> early
      | Inr st \<Rightarrow>
          if NumFound (Response (resp st)) > 1 then
            (calls st, c_String 400 (passedID @ '' has too many hits. Query: '' @ urlStr st))
          else ariesLookup_derive cfg net dec st)"

subsection \<open>The queries of a lookup\<close>

text \<open>
  The URLs the handler builds: of the query on \<^verbatim>\<open>id\<close>, of the fallback query on
  \<^verbatim>\<open>identifier_ssim\<close>, and of the query for the derivatives of a document.
\<close>

definition primaryQS :: "string \<Rightarrow> string" where
  "primaryQS passedID = QueryEscape (quoted_query ''id'' passedID)"

definition fallbackQS :: "string \<Rightarrow> string" where
  "fallbackQS passedID = QueryEscape (quoted_query ''identifier_ssim'' passedID)"

definition primaryURL :: "config \<Rightarrow> string \<Rightarrow> string" where
  "primaryURL cfg passedID = selectURL cfg (primaryQS passedID) lookup_fl"

definition fallbackURL :: "config \<Rightarrow> string \<Rightarrow> string" where
  "fallbackURL cfg passedID = selectURL cfg (fallbackQS passedID) lookup_fl"

definition derivativeURL :: "config \<Rightarrow> string \<Rightarrow> string" where
  "derivativeURL cfg docID =
     selectURL cfg (QueryEscape (quoted_query ''isDerivationOf_ssim'' docID)) derivative_fl"

text \<open>The service descriptor of lines 348 to 350 for the escaped query \<open>q\<close>.\<close>

definition svc :: "config \<Rightarrow> string \<Rightarrow> serviceURL" where
  "svc cfg q =
     \<lparr>URL = solrURL cfg @ ''/'' @ solrCore cfg @ ''/select?q='' @ q, Protocol = ''avalon-index''\<rparr>"

text \<open>
  What the index answered, as the handler sees it: the decoded response of the primary
  query (none when the request failed or the body did not decode), of the fallback query
  and of the derivative query (none when the body did not decode; a failed request
  leaves the empty body, which does not decode). The later two decode into the value
  \<open>r0\<close> that \<^verbatim>\<open>resp\<close> holds at that point.
\<close>

definition primary_response ::
  "config \<Rightarrow> network \<Rightarrow> decoder \<Rightarrow> string \<Rightarrow> solrFullResponse option" where
  "primary_response cfg net dec passedID =
     (case getAPIResponse net (primaryURL cfg passedID) of
        (body, Some e) \<Rightarrow> None
      | (body, None) \<Rightarrow>
          (case json_Unmarshal dec body zero_solrFullResponse of
             (Some e, r) \<Rightarrow> None
           | (None, r) \<Rightarrow> Some r))"

definition fallback_response ::
  "config \<Rightarrow> network \<Rightarrow> decoder \<Rightarrow> string \<Rightarrow> solrFullResponse \<Rightarrow> solrFullResponse option" where
  "fallback_response cfg net dec passedID r0 =
     (case json_Unmarshal dec (fst (getAPIResponse net (fallbackURL cfg passedID))) r0 of
        (Some e, r) \<Rightarrow> None
      | (None, r) \<Rightarrow> Some r)"

definition derivative_response ::
  "config \<Rightarrow> network \<Rightarrow> decoder \<Rightarrow> string \<Rightarrow> solrFullResponse \<Rightarrow> solrFullResponse option" where
  "derivative_response cfg net dec docID r0 =
     (case json_Unmarshal dec (fst (getAPIResponse net (derivativeURL cfg docID))) r0 of
        (Some e, r) \<Rightarrow> None
      | (None, r) \<Rightarrow> Some r)"

text \<open>The primary query was answered and decoded, and reports no hit.\<close>

definition primary_zero :: "config \<Rightarrow> network \<Rightarrow> decoder \<Rightarrow> string \<Rightarrow> bool" where
  "primary_zero cfg net dec passedID =
     (case primary_response cfg net dec passedID of
        None \<Rightarrow> False
      | Some r \<Rightarrow> NumFound (Response r) = 0)"

text \<open>
  A document of one of the two kinds of the data model: its first model is
  \<open>MediaObject\<close> (a container), or it has a model and a parent (a member).
\<close>

definition classified :: "solrDoc \<Rightarrow> bool" where
  "classified doc =
     (case Model doc of
        [] \<Rightarrow> False
      | m # ms \<Rightarrow> (if m = ''MediaObject'' then True else PartOf doc \<noteq> []))"

text \<open>The URLs of the service descriptors of a reply, none for a reply without a body.\<close>

definition service_urls :: "aries reply \<Rightarrow> string list" where
  "service_urls r = (case r of c_JSON code out \<Rightarrow> map URL (ServiceURL out) | _ \<Rightarrow> [])"


text \<open>What the health check reports for an outcome of the ping.\<close>

definition ping_status :: "http_result \<Rightarrow> string" where
  "ping_status r =
     (case r of Get_error e \<Rightarrow> ''false''
      | Get_response code body \<Rightarrow> if code = 200 then ''true'' else ''false'')"

section \<open>Example inputs\<close>

definition cfg_demo :: config where
  "cfg_demo = \<lparr>solrURL = ''http://solr'', solrCore = ''avalon'', avalonURL = ''http://avalon''\<rparr>"

text \<open>An index that answers every request with status 204 and no body.\<close>

definition net_204 :: network where
  "net_204 u = Get_response 204 []"

text \<open>An index that cannot be reached.\<close>

definition net_down :: network where
  "net_down u = Get_error ''dial tcp: connection refused''"

text \<open>An index that answers every request alike.\<close>

definition net_always :: "http_result \<Rightarrow> network" where
  "net_always r u = r"

text \<open>An index whose error page for status 500 repeats the URL it was asked for.\<close>

definition net_echo :: network where
  "net_echo u = Get_response 500 u"

text \<open>
  Documents of the index: a media object without alternate identifiers, a master file
  of it with two alternate identifiers, and a collection (which has a model and no
  parent).
\<close>

definition doc_container :: solrDoc where
  "doc_container =
     \<lparr>ID = ''abc123'', Model = [''MediaObject''], PartOf = [], FileLocation = [],
      IdentifierSSIM = [], DerivativeFile_ssi = []\<rparr>"

definition doc_member :: solrDoc where
  "doc_member =
     \<lparr>ID = ''mf1'', Model = [''MasterFile''], PartOf = [''abc123''],
      FileLocation = ''/masters/mf1.mov'', IdentifierSSIM = [''alt-1'', ''alt-2''],
      DerivativeFile_ssi = []\<rparr>"

definition doc_collection :: solrDoc where
  "doc_collection =
     \<lparr>ID = ''col1'', Model = [''Admin::Collection''], PartOf = [], FileLocation = [],
      IdentifierSSIM = [], DerivativeFile_ssi = []\<rparr>"

definition hits :: "int \<Rightarrow> solrDoc list \<Rightarrow> solrFullResponse" where
  "hits n ds =
     \<lparr>ResponseHeader = \<lparr>Status = 0, QTime = 1\<rparr>,
      Response = \<lparr>NumFound = n, Start = 0, Docs = ds\<rparr>\<rparr>"

text \<open>
  Bodies of the index. Each name in braces stands for the JSON text of a Solr response
  with the keys listed for it; every other body is not JSON. The documents are the
  ones above, with the keys for their non-empty fields.
\<close>

definition json_hits :: "int \<Rightarrow> json_doc list \<Rightarrow> json_body" where
  "json_hits n js =
     \<lparr>j_status = Some 0, j_QTime = Some 1, j_numFound = Some n, j_start = Some 0,
      j_docs = Some js\<rparr>"

definition json_record :: "string \<Rightarrow> string list \<Rightarrow> json_doc" where
  "json_record i models =
     \<lparr>j_id = Some i, j_has_model_ssim = Some models, j_isPartOf_ssim = None,
      j_file_location_ssi = None, j_identifier_ssim = None, j_derivativeFile_ssi = None\<rparr>"

definition json_member :: json_doc where
  "json_member =
     (json_record ''mf1'' [''MasterFile''])
       \<lparr>j_isPartOf_ssim := Some [''abc123''], j_file_location_ssi := Some ''/masters/mf1.mov'',
        j_identifier_ssim := Some [''alt-1'', ''alt-2'']\<rparr>"

definition json_derivative :: "string \<Rightarrow> string option \<Rightarrow> json_doc" where
  "json_derivative i f =
     \<lparr>j_id = Some i, j_has_model_ssim = None, j_isPartOf_ssim = None,
      j_file_location_ssi = None, j_identifier_ssim = None, j_derivativeFile_ssi = f\<rparr>"

text \<open>
  Two more bodies. In \<open>{member+file}\<close> the master file \<open>mf2\<close> comes with a
  \<^verbatim>\<open>derivativeFile_ssi\<close> key of its own; \<open>{bare derivative}\<close> is the answer of the
  derivative query with one record that has an \<^verbatim>\<open>id\<close> and no file. In
  \<open>{collection by identifier}\<close> the collection \<open>col1\<close> has the alternate identifier
  \<open>coll-7\<close>.
\<close>

definition json_member_file :: json_doc where
  "json_member_file =
     (json_record ''mf2'' [''MasterFile''])
       \<lparr>j_isPartOf_ssim := Some [''abc123''],
        j_derivativeFile_ssi := Some ''/derivatives/stale.mp4''\<rparr>"


definition doc_collection_alt :: solrDoc where
  "doc_collection_alt =
     \<lparr>ID = ''col1'', Model = [''Admin::Collection''], PartOf = [], FileLocation = [],
      IdentifierSSIM = [''coll-7''], DerivativeFile_ssi = []\<rparr>"

definition parse_demo :: parser where
  "parse_demo body =
     (if body = ''{container}'' then Inr (json_hits 1 [json_record ''abc123'' [''MediaObject'']])
      else if body = ''{member}'' then Inr (json_hits 1 [json_member])
      else if body = ''{collection}'' then
        Inr (json_hits 1 [json_record ''col1'' [''Admin::Collection'']])
      else if body = ''{none}'' then Inr (json_hits 0 [])
      else if body = ''{two}'' then
        Inr (json_hits 2 [json_record ''abc123'' [''MediaObject''], json_member])
      else if body = ''{derivatives}'' then
        Inr (json_hits 3 [json_derivative ''d1'' (Some ''/derivatives/high.mp4''),
                          json_derivative ''d2'' None,
                          json_derivative ''d3'' (Some ''/derivatives/low.mp4'')])
      else if body = ''{member+file}'' then Inr (json_hits 1 [json_member_file])
      else if body = ''{bare derivative}'' then Inr (json_hits 1 [json_derivative ''d9'' None])
      else if body = ''{collection by identifier}'' then
        Inr (json_hits 1 [(json_record ''col1'' [''Admin::Collection''])
                            \<lparr>j_identifier_ssim := Some [''coll-7'']\<rparr>])
      else Inl ''invalid character'')"

definition dec_demo :: decoder where
  "dec_demo = go_decoder parse_demo"


text \<open>
  The index asked for \<open>coll-7\<close>: no document has that \<^verbatim>\<open>id\<close>, the collection has it
  among its \<^verbatim>\<open>identifier_ssim\<close>.
\<close>

definition net_fallback_collection :: network where
  "net_fallback_collection u =
     (if u = primaryURL cfg_demo ''coll-7'' then Get_response 200 ''{none}''
      else Get_response 200 ''{collection by identifier}'')"

text \<open>The index holding the master file \<open>mf1\<close> and its three derivatives.\<close>

definition net_member :: network where
  "net_member u =
     (if u = derivativeURL cfg_demo ''mf1'' then Get_response 200 ''{derivatives}''
      else Get_response 200 ''{member}'')"

text \<open>
  The index asked for \<open>alt-1\<close>: no document has that \<^verbatim>\<open>id\<close>, the master file has it
  among its \<^verbatim>\<open>identifier_ssim\<close>.
\<close>

definition net_fallback :: network where
  "net_fallback u =
     (if u = primaryURL cfg_demo ''alt-1'' then Get_response 200 ''{none}''
      else if u = fallbackURL cfg_demo ''alt-1'' then Get_response 200 ''{member}''
      else Get_response 200 ''{derivatives}'')"

text \<open>The index asked for \<open>dup\<close>: nothing by \<^verbatim>\<open>id\<close>, two documents by \<^verbatim>\<open>identifier_ssim\<close>.\<close>

definition net_fallback_two :: network where
  "net_fallback_two u =
     (if u = primaryURL cfg_demo ''dup'' then Get_response 200 ''{none}''
      else Get_response 200 ''{two}'')"

text \<open>The responses expected for the media object and for the master file.\<close>

definition out_container :: aries where
  "out_container =
     \<lparr>Identifiers = [''abc123''],
      ServiceURL = [\<lparr>URL = ''http://solr/avalon/select?q=id%3A%22abc123%22'',
                     Protocol = ''avalon-index''\<rparr>],
      AccessURL = [''http://avalon/media_objects/abc123''],
      AdminURL = [''http://avalon/media_objects/abc123/edit''],
      MetadataURL = [''http://avalon/media_objects/abc123/content/descMetadata''],
      MasterFile = [], DerivativeFile = []\<rparr>"

definition out_member :: "string \<Rightarrow> string list \<Rightarrow> aries" where
  "out_member q fs =
     \<lparr>Identifiers = [''mf1'', ''alt-1'', ''alt-2''],
      ServiceURL = [\<lparr>URL = ''http://solr/avalon/select?q='' @ q, Protocol = ''avalon-index''\<rparr>],
      AccessURL = [''http://avalon/media_objects/abc123/section/mf1''],
      AdminURL = [''http://avalon/media_objects/abc123/section/mf1/edit''],
      MetadataURL = [], MasterFile = [''/masters/mf1.mov''], DerivativeFile = fs\<rparr>"

section \<open>The queries and the two stages of the lookup\<close>

lemma primaryQS_eq: "primaryQS v = ''id%3A%22'' @ QueryEscape v @ ''%22''"
  by (simp add: primaryQS_def quoted_query_def QueryEscape_def escape_byte_def shouldEscape_def upperhex_def)

lemma fallbackQS_eq: "fallbackQS v = ''identifier_ssim%3A%22'' @ QueryEscape v @ ''%22''"
  by (simp add: fallbackQS_def quoted_query_def QueryEscape_def escape_byte_def shouldEscape_def upperhex_def)

lemma derivativeQS_eq:
  "QueryEscape (quoted_query ''isDerivationOf_ssim'' v) =
     ''isDerivationOf_ssim%3A%22'' @ QueryEscape v @ ''%22''"
  by (simp add: quoted_query_def QueryEscape_def escape_byte_def shouldEscape_def upperhex_def)

lemma fallback_neq_primary: "fallbackURL cfg pid \<noteq> primaryURL cfg pid'"
  by (simp add: fallbackURL_def primaryURL_def selectURL_def primaryQS_eq fallbackQS_eq)

lemma fallback_neq_derivative: "fallbackURL cfg pid \<noteq> derivativeURL cfg d"
  by (simp add: fallbackURL_def derivativeURL_def selectURL_def derivativeQS_eq fallbackQS_eq)

lemma primary_neq_derivative: "primaryURL cfg pid \<noteq> derivativeURL cfg d"
  by (simp add: primaryURL_def derivativeURL_def selectURL_def derivativeQS_eq primaryQS_eq)

lemma ariesLookup_search_eq:
  "ariesLookup_search cfg net dec pid =
     (case getAPIResponse net (primaryURL cfg pid) of
        (body, Some e) \<Rightarrow> Inl ([primaryURL cfg pid], c_String 404 e)
      | (body, None) \<Rightarrow>
         (case json_Unmarshal dec body zero_solrFullResponse of
            (Some me, r) \<Rightarrow> Inl ([primaryURL cfg pid], c_String 404 (pid @ '' not found''))
          | (None, r1) \<Rightarrow>
              if NumFound (Response r1) = 0 then
                (case json_Unmarshal dec (fst (getAPIResponse net (fallbackURL cfg pid))) r1 of
                   (Some me, r) \<Rightarrow>
                     Inl ([primaryURL cfg pid, fallbackURL cfg pid], c_String 404 (pid @ '' not found''))
                 | (None, r2) \<Rightarrow>
                     if NumFound (Response r2) = 0 then
                       Inl ([primaryURL cfg pid, fallbackURL cfg pid],
                            c_String 404 (pid @ '' not found''))
                     else Inr \<lparr>qs = fallbackQS pid, urlStr = fallbackURL cfg pid, resp = r2,
                               calls = [primaryURL cfg pid, fallbackURL cfg pid]\<rparr>)
              else Inr \<lparr>qs = primaryQS pid, urlStr = primaryURL cfg pid, resp = r1,
                        calls = [primaryURL cfg pid]\<rparr>))"
  by (auto simp add: ariesLookup_search_def primaryURL_def fallbackURL_def primaryQS_def
      fallbackQS_def Let_def split: prod.splits option.splits)

lemma collect_derivatives_eq:
  "collect_derivatives acc ds = acc @ filter (\<lambda>f. f \<noteq> []) (map DerivativeFile_ssi ds)"
  by (induction ds arbitrary: acc) simp_all

lemma derive_container:
  assumes "Docs (Response (resp st)) = doc # ds" and "Model doc = ''MediaObject'' # ms"
  shows "ariesLookup_derive cfg net dec st =
     (calls st, c_JSON 200
        \<lparr>Identifiers = ID doc # IdentifierSSIM doc,
         ServiceURL = [svc cfg (qs st)],
         AccessURL = [avalonURL cfg @ ''/media_objects/'' @ ID doc],
         AdminURL = [avalonURL cfg @ ''/media_objects/'' @ ID doc @ ''/edit''],
         MetadataURL = [avalonURL cfg @ ''/media_objects/'' @ ID doc @ ''/content/descMetadata''],
         MasterFile = (if FileLocation doc \<noteq> [] then [FileLocation doc] else []),
         DerivativeFile = []\<rparr>)"
  using assms by (simp add: ariesLookup_derive_def zero_aries_def svc_def Let_def)

lemma derive_member:
  assumes "Docs (Response (resp st)) = doc # ds" and "Model doc = m # ms"
    and "m \<noteq> ''MediaObject''" and "PartOf doc = p # ps"
  shows "ariesLookup_derive cfg net dec st =
     (calls st @ [derivativeURL cfg (ID doc)], c_JSON 200
        \<lparr>Identifiers = ID doc # IdentifierSSIM doc,
         ServiceURL = [svc cfg (qs st)],
         AccessURL = [avalonURL cfg @ ''/media_objects/'' @ p @ ''/section/'' @ ID doc],
         AdminURL = [avalonURL cfg @ ''/media_objects/'' @ p @ ''/section/'' @ ID doc @ ''/edit''],
         MetadataURL = [],
         MasterFile = (if FileLocation doc \<noteq> [] then [FileLocation doc] else []),
         DerivativeFile =
           (case json_Unmarshal dec (fst (getAPIResponse net (derivativeURL cfg (ID doc)))) (resp st) of
              (Some e, r3) \<Rightarrow> []
            | (None, r3) \<Rightarrow> filter (\<lambda>f. f \<noteq> []) (map DerivativeFile_ssi (Docs (Response r3))))\<rparr>)"
  using assms
  by (simp add: ariesLookup_derive_def zero_aries_def svc_def Let_def derivativeURL_def
      collect_derivatives_eq split: prod.split option.split)

lemma derive_panic:
  "snd (ariesLookup_derive cfg net dec st) = panic \<longleftrightarrow>
     (case Docs (Response (resp st)) of [] \<Rightarrow> True
      | doc # ds \<Rightarrow> (case Model doc of [] \<Rightarrow> True
          | m # ms \<Rightarrow> m \<noteq> ''MediaObject'' \<and> PartOf doc = []))"
  by (simp add: ariesLookup_derive_def Let_def split: list.split prod.split)

lemma derive_json:
  assumes "ariesLookup_derive cfg net dec st = (tr, c_JSON code out)"
  shows "\<exists>doc ds. Docs (Response (resp st)) = doc # ds \<and> code = 200 \<and>
           Identifiers out = ID doc # IdentifierSSIM doc \<and> ServiceURL out = [svc cfg (qs st)]"
  using assms
  by (auto simp add: ariesLookup_derive_def zero_aries_def svc_def Let_def
      split: list.splits prod.splits if_splits)

lemma ariesLookup_search_responses:
  "ariesLookup_search cfg net dec pid =
     (case primary_response cfg net dec pid of
        None \<Rightarrow>
          Inl ([primaryURL cfg pid],
               c_String 404 (case snd (getAPIResponse net (primaryURL cfg pid)) of
                               Some e \<Rightarrow> e | None \<Rightarrow> pid @ '' not found''))
      | Some r1 \<Rightarrow>
          if NumFound (Response r1) = 0 then
            (case fallback_response cfg net dec pid r1 of
               None \<Rightarrow>
                 Inl ([primaryURL cfg pid, fallbackURL cfg pid], c_String 404 (pid @ '' not found''))
             | Some r2 \<Rightarrow>
                 if NumFound (Response r2) = 0 then
                   Inl ([primaryURL cfg pid, fallbackURL cfg pid],
                        c_String 404 (pid @ '' not found''))
                 else Inr \<lparr>qs = fallbackQS pid, urlStr = fallbackURL cfg pid, resp = r2,
                           calls = [primaryURL cfg pid, fallbackURL cfg pid]\<rparr>)
          else Inr \<lparr>qs = primaryQS pid, urlStr = primaryURL cfg pid, resp = r1,
                    calls = [primaryURL cfg pid]\<rparr>)"
proof -
  obtain body err where g: "getAPIResponse net (primaryURL cfg pid) = (body, err)"
    by force
  obtain me r1 where u: "json_Unmarshal dec body zero_solrFullResponse = (me, r1)"
    by force
  obtain me2 r2 where
    u2: "json_Unmarshal dec (fst (getAPIResponse net (fallbackURL cfg pid))) r1 = (me2, r2)"
    by force
  show ?thesis
  proof (cases err)
    case (Some e)
    with g show ?thesis
      by (simp add: ariesLookup_search_eq primary_response_def)
  next
    case None
    note err = this
    show ?thesis
    proof (cases me)
      case (Some e)
      with g err u show ?thesis
        by (simp add: ariesLookup_search_eq primary_response_def)
    next
      case None
      with g err u u2 show ?thesis
        by (cases me2) (simp_all add: ariesLookup_search_eq primary_response_def
            fallback_response_def)
    qed
  qed
qed

lemma search_Inl:
  assumes "ariesLookup_search cfg net dec pid = Inl (tr, r)"
  shows "\<exists>m. r = c_String 404 m"
  using assms
  by (auto simp add: ariesLookup_search_responses split: option.splits if_splits)

lemma search_Inr:
  assumes "ariesLookup_search cfg net dec pid = Inr st"
  shows "NumFound (Response (resp st)) \<noteq> 0 \<and>
         urlStr st = selectURL cfg (qs st) lookup_fl \<and>
         urlStr st = last (calls st) \<and>
         (if primary_zero cfg net dec pid
          then qs st = fallbackQS pid \<and> urlStr st = fallbackURL cfg pid \<and>
               calls st = [primaryURL cfg pid, fallbackURL cfg pid]
          else qs st = primaryQS pid \<and> urlStr st = primaryURL cfg pid \<and>
               calls st = [primaryURL cfg pid])"
  using assms
  by (auto simp add: ariesLookup_search_responses primary_zero_def primaryURL_def fallbackURL_def
      split: option.splits if_splits)

lemma lookup_json:
  assumes "ariesLookup cfg net dec pid = (tr, c_JSON code out)"
  shows "\<exists>st. ariesLookup_search cfg net dec pid = Inr st \<and>
              \<not> 1 < NumFound (Response (resp st)) \<and>
              ariesLookup_derive cfg net dec st = (tr, c_JSON code out)"
proof (cases "ariesLookup_search cfg net dec pid")
  case (Inl early)
  obtain tr' r where "early = (tr', r)" by (cases early)
  with Inl search_Inl[of cfg net dec pid tr' r] assms show ?thesis
    by (auto simp add: ariesLookup_def)
next
  case (Inr st)
  with assms show ?thesis
    by (auto simp add: ariesLookup_def split: if_splits)
qed

lemma derive_classified:
  assumes "Docs (Response (resp st)) = doc # ds" and "classified doc"
  shows "\<exists>tr out. ariesLookup_derive cfg net dec st = (tr, c_JSON 200 out) \<and>
           Identifiers out = ID doc # IdentifierSSIM doc \<and>
           ServiceURL out = [svc cfg (qs st)]"
proof (cases "Model doc")
  case Nil
  with assms show ?thesis by (simp add: classified_def)
next
  case (Cons m ms)
  show ?thesis
  proof (cases "m = ''MediaObject''")
    case True
    with Cons assms show ?thesis by (simp add: derive_container)
  next
    case False
    with Cons assms obtain p ps where "PartOf doc = p # ps"
      by (cases "PartOf doc") (simp_all add: classified_def)
    with False Cons assms show ?thesis by (simp add: derive_member)
  qed
qed

section \<open>The identifier list\<close>

text \<open>
  C1. Every response the lookup returns carries the identifiers of the first document
  of the decoded response that the search ended with: the document's \<^verbatim>\<open>id\<close> first,
  then its \<^verbatim>\<open>identifier_ssim\<close> values in the order of the index. And when the search
  ends with one hit whose document is a container or a member, the lookup does return
  such a response, with status 200.
\<close>

theorem identifiers_id_then_alternates:
  "(\<forall>tr code out. ariesLookup cfg net dec pid = (tr, c_JSON code out) \<longrightarrow>
      (\<exists>st doc ds. ariesLookup_search cfg net dec pid = Inr st \<and>
         Docs (Response (resp st)) = doc # ds \<and>
         Identifiers out = ID doc # IdentifierSSIM doc \<and> Identifiers out ! 0 = ID doc)) \<and>
   (\<forall>st doc ds. ariesLookup_search cfg net dec pid = Inr st \<and>
         NumFound (Response (resp st)) = 1 \<and> Docs (Response (resp st)) = doc # ds \<and>
         classified doc \<longrightarrow>
      (\<exists>tr out. ariesLookup cfg net dec pid = (tr, c_JSON 200 out) \<and>
         Identifiers out = ID doc # IdentifierSSIM doc \<and> Identifiers out ! 0 = ID doc))"
proof (intro conjI allI impI)
  fix tr code out
  assume "ariesLookup cfg net dec pid = (tr, c_JSON code out)"
  then obtain st where st: "ariesLookup_search cfg net dec pid = Inr st"
    and d: "ariesLookup_derive cfg net dec st = (tr, c_JSON code out)"
    using lookup_json by blast
  from derive_json[OF d] obtain doc ds where
    "Docs (Response (resp st)) = doc # ds" "Identifiers out = ID doc # IdentifierSSIM doc"
    by blast
  with st show "\<exists>st doc ds. ariesLookup_search cfg net dec pid = Inr st \<and>
         Docs (Response (resp st)) = doc # ds \<and>
         Identifiers out = ID doc # IdentifierSSIM doc \<and> Identifiers out ! 0 = ID doc"
    by auto
next
  fix st doc ds
  assume h: "ariesLookup_search cfg net dec pid = Inr st \<and>
         NumFound (Response (resp st)) = 1 \<and> Docs (Response (resp st)) = doc # ds \<and>
         classified doc"
  then obtain tr out where "ariesLookup_derive cfg net dec st = (tr, c_JSON 200 out)"
    "Identifiers out = ID doc # IdentifierSSIM doc"
    using derive_classified[of st doc ds cfg net dec] by blast
  with h show "\<exists>tr out. ariesLookup cfg net dec pid = (tr, c_JSON 200 out) \<and>
         Identifiers out = ID doc # IdentifierSSIM doc \<and> Identifiers out ! 0 = ID doc"
    by (auto simp add: ariesLookup_def)
qed

theorem identifiers_id_then_alternates_witness:
  "ariesLookup cfg_demo net_member dec_demo ''mf1'' =
     ([primaryURL cfg_demo ''mf1'', derivativeURL cfg_demo ''mf1''],
      c_JSON 200 (out_member ''id%3A%22mf1%22'' [''/derivatives/high.mp4'', ''/derivatives/low.mp4''])) \<and>
   ariesLookup_search cfg_demo net_member dec_demo ''mf1'' =
     Inr \<lparr>qs = primaryQS ''mf1'', urlStr = primaryURL cfg_demo ''mf1'',
          resp = hits 1 [doc_member], calls = [primaryURL cfg_demo ''mf1'']\<rparr> \<and>
   classified doc_member \<and>
   (\<exists>st doc ds. ariesLookup_search cfg_demo net_member dec_demo ''mf1'' = Inr st \<and>
      Docs (Response (resp st)) = doc # ds \<and>
      Identifiers (out_member ''id%3A%22mf1%22'' [''/derivatives/high.mp4'', ''/derivatives/low.mp4''])
        = ID doc # IdentifierSSIM doc \<and>
      Identifiers (out_member ''id%3A%22mf1%22'' [''/derivatives/high.mp4'', ''/derivatives/low.mp4'']) ! 0
        = ID doc) \<and>
   (\<exists>tr out. ariesLookup cfg_demo net_member dec_demo ''mf1'' = (tr, c_JSON 200 out) \<and>
      Identifiers out = ID doc_member # IdentifierSSIM doc_member \<and>
      Identifiers out ! 0 = ID doc_member)"
proof -
  let ?st = "\<lparr>qs = primaryQS ''mf1'', urlStr = primaryURL cfg_demo ''mf1'',
          resp = hits 1 [doc_member], calls = [primaryURL cfg_demo ''mf1'']\<rparr>"
  have run: "ariesLookup cfg_demo net_member dec_demo ''mf1'' =
     ([primaryURL cfg_demo ''mf1'', derivativeURL cfg_demo ''mf1''],
      c_JSON 200 (out_member ''id%3A%22mf1%22'' [''/derivatives/high.mp4'', ''/derivatives/low.mp4'']))"
    by code_simp
  have found: "ariesLookup_search cfg_demo net_member dec_demo ''mf1'' = Inr ?st"
    by code_simp
  have kind: "classified doc_member"
    by code_simp
  have one: "NumFound (Response (resp ?st)) = 1" "Docs (Response (resp ?st)) = doc_member # []"
    by (simp_all add: hits_def)
  note T = identifiers_id_then_alternates [of cfg_demo net_member dec_demo "''mf1''"]
  from T run have a: "\<exists>st doc ds. ariesLookup_search cfg_demo net_member dec_demo ''mf1'' = Inr st \<and>
      Docs (Response (resp st)) = doc # ds \<and>
      Identifiers (out_member ''id%3A%22mf1%22'' [''/derivatives/high.mp4'', ''/derivatives/low.mp4''])
        = ID doc # IdentifierSSIM doc \<and>
      Identifiers (out_member ''id%3A%22mf1%22'' [''/derivatives/high.mp4'', ''/derivatives/low.mp4'']) ! 0
        = ID doc"
    by blast
  from T found one kind have b: "\<exists>tr out. ariesLookup cfg_demo net_member dec_demo ''mf1'' = (tr, c_JSON 200 out) \<and>
      Identifiers out = ID doc_member # IdentifierSSIM doc_member \<and>
      Identifiers out ! 0 = ID doc_member"
    by blast
  from run found kind a b show ?thesis by blast
qed

section \<open>The fallback query\<close>

lemma lookup_calls:
  "fst (ariesLookup cfg net dec pid) =
     (case ariesLookup_search cfg net dec pid of
        Inl early \<Rightarrow> fst early
      | Inr st \<Rightarrow> if 1 < NumFound (Response (resp st)) then calls st
                  else fst (ariesLookup_derive cfg net dec st))"
  by (simp add: ariesLookup_def split: sum.split)

lemma derive_calls:
  "fst (ariesLookup_derive cfg net dec st) = calls st \<or>
   (\<exists>d. fst (ariesLookup_derive cfg net dec st) = calls st @ [derivativeURL cfg d])"
  by (auto simp add: ariesLookup_derive_def derivativeURL_def Let_def
      split: list.splits prod.splits)

lemma fallback_issued_iff:
  "fallbackURL cfg pid \<in> set (fst (ariesLookup cfg net dec pid)) \<longleftrightarrow> primary_zero cfg net dec pid"
proof (cases "ariesLookup_search cfg net dec pid")
  case (Inl early)
  then show ?thesis
    by (auto simp add: lookup_calls ariesLookup_search_responses primary_zero_def
        fallback_neq_primary split: option.splits if_splits)
next
  case (Inr st)
  from search_Inr[OF Inr] have c: "calls st =
      (if primary_zero cfg net dec pid then [primaryURL cfg pid, fallbackURL cfg pid]
       else [primaryURL cfg pid])"
    by (simp split: if_splits)
  have many: "fst (ariesLookup cfg net dec pid) = calls st \<or>
      (\<exists>d. fst (ariesLookup cfg net dec pid) = calls st @ [derivativeURL cfg d])"
    using derive_calls[of cfg net dec st] Inr by (simp add: lookup_calls)
  show ?thesis
  proof (cases "primary_zero cfg net dec pid")
    case True
    with c many show ?thesis by auto
  next
    case False
    with c many show ?thesis
      by (auto simp add: fallback_neq_primary fallback_neq_derivative)
  qed
qed

text \<open>
  What holds of the fallback query for every network and decoder. Its URL is among the
  requests of a lookup exactly when the primary query was answered, decoded and
  reported no hit. When the primary query reports no hit and the fallback query one hit
  whose document is a container or a member, the lookup answers 200 from that document
  with the fallback query in the service descriptor. When both report no hit, the
  lookup answers 404 with \<^verbatim>\<open><id> not found\<close>.
\<close>

lemma fallback_query_facts:
  "(fallbackURL cfg pid \<in> set (fst (ariesLookup cfg net dec pid))
      \<longleftrightarrow> primary_zero cfg net dec pid) \<and>
   (\<forall>r1 r2 doc ds.
      primary_response cfg net dec pid = Some r1 \<and> NumFound (Response r1) = 0 \<and>
      fallback_response cfg net dec pid r1 = Some r2 \<and> NumFound (Response r2) = 1 \<and>
      Docs (Response r2) = doc # ds \<and> classified doc \<longrightarrow>
      (\<exists>tr out. ariesLookup cfg net dec pid = (tr, c_JSON 200 out) \<and>
         take 2 tr = [primaryURL cfg pid, fallbackURL cfg pid] \<and>
         Identifiers out = ID doc # IdentifierSSIM doc \<and>
         ServiceURL out = [svc cfg (fallbackQS pid)])) \<and>
   (\<forall>r1 r2.
      primary_response cfg net dec pid = Some r1 \<and> NumFound (Response r1) = 0 \<and>
      fallback_response cfg net dec pid r1 = Some r2 \<and> NumFound (Response r2) = 0 \<longrightarrow>
      ariesLookup cfg net dec pid =
        ([primaryURL cfg pid, fallbackURL cfg pid], c_String 404 (pid @ '' not found'')))"
proof (intro conjI allI impI)
  show "fallbackURL cfg pid \<in> set (fst (ariesLookup cfg net dec pid))
      \<longleftrightarrow> primary_zero cfg net dec pid"
    by (rule fallback_issued_iff)
next
  fix r1 r2 doc ds
  assume h: "primary_response cfg net dec pid = Some r1 \<and> NumFound (Response r1) = 0 \<and>
      fallback_response cfg net dec pid r1 = Some r2 \<and> NumFound (Response r2) = 1 \<and>
      Docs (Response r2) = doc # ds \<and> classified doc"
  let ?st = "\<lparr>qs = fallbackQS pid, urlStr = fallbackURL cfg pid, resp = r2,
              calls = [primaryURL cfg pid, fallbackURL cfg pid]\<rparr>"
  from h have s: "ariesLookup_search cfg net dec pid = Inr ?st"
    by (simp add: ariesLookup_search_responses)
  from h have look: "ariesLookup cfg net dec pid = ariesLookup_derive cfg net dec ?st"
    by (simp add: ariesLookup_def s)
  from h have d: "Docs (Response (resp ?st)) = doc # ds" and c: "classified doc"
    by simp_all
  from derive_classified[OF d c, of cfg net dec] obtain tr out where
    o: "ariesLookup_derive cfg net dec ?st = (tr, c_JSON 200 out)"
       "Identifiers out = ID doc # IdentifierSSIM doc" "ServiceURL out = [svc cfg (fallbackQS pid)]"
    by auto
  from derive_calls[of cfg net dec ?st] o(1) have "take 2 tr = [primaryURL cfg pid, fallbackURL cfg pid]"
    by auto
  with look o show "\<exists>tr out. ariesLookup cfg net dec pid = (tr, c_JSON 200 out) \<and>
         take 2 tr = [primaryURL cfg pid, fallbackURL cfg pid] \<and>
         Identifiers out = ID doc # IdentifierSSIM doc \<and>
         ServiceURL out = [svc cfg (fallbackQS pid)]"
    by simp
next
  fix r1 r2
  assume "primary_response cfg net dec pid = Some r1 \<and> NumFound (Response r1) = 0 \<and>
      fallback_response cfg net dec pid r1 = Some r2 \<and> NumFound (Response r2) = 0"
  then show "ariesLookup cfg net dec pid =
        ([primaryURL cfg pid, fallbackURL cfg pid], c_String 404 (pid @ '' not found''))"
    by (simp add: ariesLookup_def ariesLookup_search_responses)
qed

text \<open>
  C2. The claim that one hit of the fallback query makes the lookup succeed fails on a
  document that is neither container nor member. The identifier \<open>coll-7\<close> has no hit
  by \<^verbatim>\<open>id\<close> and exactly one by \<^verbatim>\<open>identifier_ssim\<close>, the collection \<open>col1\<close>; the
  handler requests both URLs and then panics at \<^verbatim>\<open>doc.PartOf[0]\<close> instead of
  answering.
\<close>

theorem fallback_hit_on_collection_panics:
  "primary_response cfg_demo net_fallback_collection dec_demo ''coll-7'' = Some (hits 0 []) \<and>
   fallback_response cfg_demo net_fallback_collection dec_demo ''coll-7'' (hits 0 []) =
     Some (hits 1 [doc_collection_alt]) \<and>
   IdentifierSSIM doc_collection_alt = [''coll-7''] \<and>
   ariesLookup cfg_demo net_fallback_collection dec_demo ''coll-7'' =
     ([primaryURL cfg_demo ''coll-7'', fallbackURL cfg_demo ''coll-7''], panic)"
  by code_simp

section \<open>More than one hit\<close>

lemma sublist_at_end: "sublist xs (us @ vs @ xs)"
  unfolding sublist_def by (intro exI[of _ "us @ vs"] exI[of _ "[]"]) simp

text \<open>
  C3. When the search ends with a decoded response that reports more than one hit, the
  lookup answers 400 with a text that ends with the URL of the query that reported them
  (the last one requested: the fallback query when the primary query had no hit, the
  primary query otherwise), and builds no response. A response is built only when the
  search ends with a hit count of exactly one; the only other count the two tests of
  the handler let through is a negative one, which an index does not report.
\<close>

theorem too_many_hits_is_400:
  "(\<forall>st. ariesLookup_search cfg net dec pid = Inr st \<and> 1 < NumFound (Response (resp st)) \<longrightarrow>
      ariesLookup cfg net dec pid =
        (calls st, c_String 400 (pid @ '' has too many hits. Query: '' @ urlStr st)) \<and>
      sublist (urlStr st) (pid @ '' has too many hits. Query: '' @ urlStr st) \<and>
      urlStr st = last (calls st) \<and>
      urlStr st = (if primary_zero cfg net dec pid then fallbackURL cfg pid
                   else primaryURL cfg pid)) \<and>
   (\<forall>tr code out. ariesLookup cfg net dec pid = (tr, c_JSON code out) \<longrightarrow>
      (\<exists>st. ariesLookup_search cfg net dec pid = Inr st \<and>
         (NumFound (Response (resp st)) = 1 \<or> NumFound (Response (resp st)) < 0)))"
proof (intro conjI allI impI)
  fix st
  assume h: "ariesLookup_search cfg net dec pid = Inr st \<and> 1 < NumFound (Response (resp st))"
  then show "ariesLookup cfg net dec pid =
        (calls st, c_String 400 (pid @ '' has too many hits. Query: '' @ urlStr st))"
    by (simp add: ariesLookup_def)
  show "sublist (urlStr st) (pid @ '' has too many hits. Query: '' @ urlStr st)"
    by (rule sublist_at_end)
  from h search_Inr[of cfg net dec pid st] show "urlStr st = last (calls st)"
    by blast
  from h search_Inr[of cfg net dec pid st]
  show "urlStr st = (if primary_zero cfg net dec pid then fallbackURL cfg pid
                   else primaryURL cfg pid)"
    by (simp add: primaryURL_def fallbackURL_def split: if_splits)
next
  fix tr code out
  assume "ariesLookup cfg net dec pid = (tr, c_JSON code out)"
  then obtain st where st: "ariesLookup_search cfg net dec pid = Inr st"
    and le: "\<not> 1 < NumFound (Response (resp st))"
    using lookup_json by blast
  from search_Inr[OF st] have "NumFound (Response (resp st)) \<noteq> 0"
    by blast
  with le have "NumFound (Response (resp st)) = 1 \<or> NumFound (Response (resp st)) < 0"
    by arith
  with st show "\<exists>st. ariesLookup_search cfg net dec pid = Inr st \<and>
         (NumFound (Response (resp st)) = 1 \<or> NumFound (Response (resp st)) < 0)"
    by blast
qed

theorem too_many_hits_is_400_witness:
  "ariesLookup_search cfg_demo net_fallback_two dec_demo ''dup'' =
     Inr \<lparr>qs = fallbackQS ''dup'', urlStr = fallbackURL cfg_demo ''dup'',
          resp = hits 2 [doc_container, doc_member],
          calls = [primaryURL cfg_demo ''dup'', fallbackURL cfg_demo ''dup'']\<rparr> \<and>
   ariesLookup cfg_demo net_fallback_two dec_demo ''dup'' =
     ([primaryURL cfg_demo ''dup'', fallbackURL cfg_demo ''dup''],
      c_String 400 (''dup has too many hits. Query: '' @ fallbackURL cfg_demo ''dup'')) \<and>
   sublist (fallbackURL cfg_demo ''dup'')
     (''dup has too many hits. Query: '' @ fallbackURL cfg_demo ''dup'') \<and>
   ariesLookup cfg_demo (net_always (Get_response 200 ''{container}'')) dec_demo ''abc123'' =
     ([primaryURL cfg_demo ''abc123''], c_JSON 200 out_container) \<and>
   (\<exists>st. ariesLookup_search cfg_demo (net_always (Get_response 200 ''{container}'')) dec_demo ''abc123''
           = Inr st \<and>
         (NumFound (Response (resp st)) = 1 \<or> NumFound (Response (resp st)) < 0))"
proof -
  let ?st = "\<lparr>qs = fallbackQS ''dup'', urlStr = fallbackURL cfg_demo ''dup'',
          resp = hits 2 [doc_container, doc_member],
          calls = [primaryURL cfg_demo ''dup'', fallbackURL cfg_demo ''dup'']\<rparr>"
  have found: "ariesLookup_search cfg_demo net_fallback_two dec_demo ''dup'' = Inr ?st"
    by code_simp
  have two: "1 < NumFound (Response (resp ?st))"
    by (simp add: hits_def)
  have run: "ariesLookup cfg_demo (net_always (Get_response 200 ''{container}'')) dec_demo ''abc123'' =
     ([primaryURL cfg_demo ''abc123''], c_JSON 200 out_container)"
    by code_simp
  note T1 = too_many_hits_is_400 [of cfg_demo net_fallback_two dec_demo "''dup''"]
  note T2 = too_many_hits_is_400
    [of cfg_demo "net_always (Get_response 200 ''{container}'')" dec_demo "''abc123''"]
  from T1 found two have a: "ariesLookup cfg_demo net_fallback_two dec_demo ''dup'' =
     (calls ?st, c_String 400 (''dup'' @ '' has too many hits. Query: '' @ urlStr ?st)) \<and>
     sublist (urlStr ?st) (''dup'' @ '' has too many hits. Query: '' @ urlStr ?st)"
    by blast
  from T2 run have b: "\<exists>st. ariesLookup_search cfg_demo (net_always (Get_response 200 ''{container}'')) dec_demo ''abc123''
           = Inr st \<and>
         (NumFound (Response (resp st)) = 1 \<or> NumFound (Response (resp st)) < 0)"
    by blast
  from a have a': "ariesLookup cfg_demo net_fallback_two dec_demo ''dup'' =
     ([primaryURL cfg_demo ''dup'', fallbackURL cfg_demo ''dup''],
      c_String 400 (''dup has too many hits. Query: '' @ fallbackURL cfg_demo ''dup'')) \<and>
   sublist (fallbackURL cfg_demo ''dup'')
     (''dup has too many hits. Query: '' @ fallbackURL cfg_demo ''dup'')"
    by simp
  from found a' run b show ?thesis
    by blast
qed

section \<open>Failures of the primary query\<close>

lemma length_QueryEscape: "length s \<le> length (QueryEscape s)"
proof (induction s)
  case Nil
  show ?case by (simp add: QueryEscape_def)
next
  case (Cons c cs)
  have "1 \<le> length (escape_byte c)"
    by (simp add: escape_byte_def)
  with Cons show ?case
    by (simp add: QueryEscape_def)
qed

lemma not_found_shorter_than_primaryURL:
  "length (pid @ '' not found'') < length (primaryURL cfg pid)"
  using length_QueryEscape[of pid]
  by (simp add: primaryURL_def selectURL_def primaryQS_eq)

lemma not_found_hides_primaryURL: "\<not> sublist (primaryURL cfg pid) (pid @ '' not found'')"
proof
  assume "sublist (primaryURL cfg pid) (pid @ '' not found'')"
  then have "length (primaryURL cfg pid) \<le> length (pid @ '' not found'')"
    by (rule sublist_length_le)
  with not_found_shorter_than_primaryURL[of pid cfg] show False
    by simp
qed

text \<open>
  C4, as the code has it. When the primary request fails (an error of the client, or a
  status other than 200), the lookup answers 404 and the text is the error's own text:
  the client's message, or the body the index sent with that status. When the body of
  a 200 answer does not decode, the lookup answers 404 with \<^verbatim>\<open><id> not found\<close>, a
  text that does not contain the URL of the query.
\<close>

theorem primary_failure_is_404:
  "(\<forall>e. net (primaryURL cfg pid) = Get_error e \<longrightarrow>
      ariesLookup cfg net dec pid = ([primaryURL cfg pid], c_String 404 e)) \<and>
   (\<forall>code body. net (primaryURL cfg pid) = Get_response code body \<and> code \<noteq> 200 \<longrightarrow>
      ariesLookup cfg net dec pid = ([primaryURL cfg pid], c_String 404 body)) \<and>
   (\<forall>body e r. net (primaryURL cfg pid) = Get_response 200 body \<and>
        json_Unmarshal dec body zero_solrFullResponse = (Some e, r) \<longrightarrow>
      ariesLookup cfg net dec pid = ([primaryURL cfg pid], c_String 404 (pid @ '' not found'')) \<and>
      \<not> sublist (primaryURL cfg pid) (pid @ '' not found''))"
  by (simp add: ariesLookup_def ariesLookup_search_eq getAPIResponse_def
      not_found_hides_primaryURL)

theorem primary_failure_is_404_witness:
  "net_down (primaryURL cfg_demo ''abc123'') = Get_error ''dial tcp: connection refused'' \<and>
   ariesLookup cfg_demo net_down dec_demo ''abc123'' =
     ([primaryURL cfg_demo ''abc123''], c_String 404 ''dial tcp: connection refused'') \<and>
   net_always (Get_response 503 ''Service Unavailable'') (primaryURL cfg_demo ''abc123'') =
     Get_response 503 ''Service Unavailable'' \<and>
   ariesLookup cfg_demo (net_always (Get_response 503 ''Service Unavailable'')) dec_demo ''abc123'' =
     ([primaryURL cfg_demo ''abc123''], c_String 404 ''Service Unavailable'') \<and>
   net_always (Get_response 200 ''<html>'') (primaryURL cfg_demo ''abc123'') =
     Get_response 200 ''<html>'' \<and>
   json_Unmarshal dec_demo ''<html>'' zero_solrFullResponse =
     (Some ''invalid character'', zero_solrFullResponse) \<and>
   ariesLookup cfg_demo (net_always (Get_response 200 ''<html>'')) dec_demo ''abc123'' =
     ([primaryURL cfg_demo ''abc123''], c_String 404 ''abc123 not found'') \<and>
   \<not> sublist (primaryURL cfg_demo ''abc123'') ''abc123 not found''"
proof -
  have n1: "net_down (primaryURL cfg_demo ''abc123'') = Get_error ''dial tcp: connection refused''"
    by (simp add: net_down_def)
  have n2: "net_always (Get_response 503 ''Service Unavailable'') (primaryURL cfg_demo ''abc123'') =
     Get_response 503 ''Service Unavailable''"
    by (simp add: net_always_def)
  have n3: "net_always (Get_response 200 ''<html>'') (primaryURL cfg_demo ''abc123'') =
     Get_response 200 ''<html>''"
    by (simp add: net_always_def)
  have u: "json_Unmarshal dec_demo ''<html>'' zero_solrFullResponse =
     (Some ''invalid character'', zero_solrFullResponse)"
    by (simp add: json_Unmarshal_def dec_demo_def go_decoder_def parse_demo_def)
  note T1 = primary_failure_is_404 [of net_down cfg_demo "''abc123''" dec_demo]
  note T2 = primary_failure_is_404
    [of "net_always (Get_response 503 ''Service Unavailable'')" cfg_demo "''abc123''" dec_demo]
  note T3 = primary_failure_is_404
    [of "net_always (Get_response 200 ''<html>'')" cfg_demo "''abc123''" dec_demo]
  from T1 n1 have a: "ariesLookup cfg_demo net_down dec_demo ''abc123'' =
     ([primaryURL cfg_demo ''abc123''], c_String 404 ''dial tcp: connection refused'')"
    by blast
  have "(503::nat) \<noteq> 200" by simp
  with T2 n2 have b: "ariesLookup cfg_demo (net_always (Get_response 503 ''Service Unavailable'')) dec_demo ''abc123'' =
     ([primaryURL cfg_demo ''abc123''], c_String 404 ''Service Unavailable'')"
    by blast
  from T3 n3 u have c: "ariesLookup cfg_demo (net_always (Get_response 200 ''<html>'')) dec_demo ''abc123'' =
     ([primaryURL cfg_demo ''abc123''], c_String 404 (''abc123'' @ '' not found'')) \<and>
   \<not> sublist (primaryURL cfg_demo ''abc123'') (''abc123'' @ '' not found'')"
    by blast
  then have c': "ariesLookup cfg_demo (net_always (Get_response 200 ''<html>'')) dec_demo ''abc123'' =
     ([primaryURL cfg_demo ''abc123''], c_String 404 ''abc123 not found'') \<and>
   \<not> sublist (primaryURL cfg_demo ''abc123'') ''abc123 not found''"
    by simp
  from n1 a n2 b n3 u c' show ?thesis
    by blast
qed

text \<open>
  C4 as the specification words it fails. Against an index whose answer with status 500
  repeats the requested URL, the caller of the lookup reads that URL, query included,
  and not \<^verbatim>\<open>abc123 not found\<close>; against an index that is down the caller reads the
  client's error text.
\<close>

theorem upstream_error_text_counterexample:
  "net_echo (primaryURL cfg_demo ''abc123'') = Get_response 500 (primaryURL cfg_demo ''abc123'') \<and>
   ariesLookup cfg_demo net_echo dec_demo ''abc123'' =
     ([primaryURL cfg_demo ''abc123''], c_String 404 (primaryURL cfg_demo ''abc123'')) \<and>
   primaryURL cfg_demo ''abc123'' =
     ''http://solr/avalon/select?q=id%3A%22abc123%22&wt=json&indent=true&fl=id,identifier_ssim,file_location_ssi,has_model_ssim,isPartOf_ssim'' \<and>
   primaryURL cfg_demo ''abc123'' \<noteq> ''abc123 not found'' \<and>
   ariesLookup cfg_demo net_down dec_demo ''abc123'' =
     ([primaryURL cfg_demo ''abc123''], c_String 404 ''dial tcp: connection refused'') \<and>
   ''dial tcp: connection refused'' \<noteq> ''abc123 not found''"
  by code_simp

section \<open>Containers\<close>

lemma search_primary_hit:
  assumes "primary_response cfg net dec pid = Some r" and "NumFound (Response r) \<noteq> 0"
  shows "ariesLookup_search cfg net dec pid =
           Inr \<lparr>qs = primaryQS pid, urlStr = primaryURL cfg pid, resp = r,
                calls = [primaryURL cfg pid]\<rparr>"
  using assms by (simp add: ariesLookup_search_responses)

text \<open>
  C5. When the primary query for \<open>abc123\<close> reports one hit, a document with that
  \<^verbatim>\<open>id\<close>, first model \<open>MediaObject\<close> and no \<^verbatim>\<open>identifier_ssim\<close>, the lookup requests
  that one URL only and answers 200 with the identifier \<open>abc123\<close> and the access,
  administrative and metadata URLs of the media object under the catalog's base URL.
  For every document whose first model is \<open>MediaObject\<close>, building the response
  requests nothing.
\<close>

theorem container_example:
  "(\<forall>r doc ms. primary_response cfg net dec ''abc123'' = Some r \<and>
        NumFound (Response r) = 1 \<and> Docs (Response r) = [doc] \<and>
        ID doc = ''abc123'' \<and> Model doc = ''MediaObject'' # ms \<and> IdentifierSSIM doc = [] \<longrightarrow>
      (\<exists>out. ariesLookup cfg net dec ''abc123'' =
                ([primaryURL cfg ''abc123''], c_JSON 200 out) \<and>
         Identifiers out = [''abc123''] \<and>
         AccessURL out = [avalonURL cfg @ ''/media_objects/abc123''] \<and>
         AdminURL out = [avalonURL cfg @ ''/media_objects/abc123/edit''] \<and>
         MetadataURL out = [avalonURL cfg @ ''/media_objects/abc123/content/descMetadata''] \<and>
         DerivativeFile out = [])) \<and>
   (\<forall>st doc ds ms. Docs (Response (resp st)) = doc # ds \<and> Model doc = ''MediaObject'' # ms \<longrightarrow>
      fst (ariesLookup_derive cfg net dec st) = calls st)"
proof (intro conjI allI impI)
  fix r doc ms
  assume h: "primary_response cfg net dec ''abc123'' = Some r \<and>
        NumFound (Response r) = 1 \<and> Docs (Response r) = [doc] \<and>
        ID doc = ''abc123'' \<and> Model doc = ''MediaObject'' # ms \<and> IdentifierSSIM doc = []"
  let ?st = "\<lparr>qs = primaryQS ''abc123'', urlStr = primaryURL cfg ''abc123'', resp = r,
              calls = [primaryURL cfg ''abc123'']\<rparr>"
  from h have s: "ariesLookup_search cfg net dec ''abc123'' = Inr ?st"
    by (simp add: search_primary_hit)
  from h have d: "Docs (Response (resp ?st)) = doc # []" and m: "Model doc = ''MediaObject'' # ms"
    by simp_all
  from h s have "ariesLookup cfg net dec ''abc123'' = ariesLookup_derive cfg net dec ?st"
    by (simp add: ariesLookup_def)
  with h show "\<exists>out. ariesLookup cfg net dec ''abc123'' =
                ([primaryURL cfg ''abc123''], c_JSON 200 out) \<and>
         Identifiers out = [''abc123''] \<and>
         AccessURL out = [avalonURL cfg @ ''/media_objects/abc123''] \<and>
         AdminURL out = [avalonURL cfg @ ''/media_objects/abc123/edit''] \<and>
         MetadataURL out = [avalonURL cfg @ ''/media_objects/abc123/content/descMetadata''] \<and>
         DerivativeFile out = []"
    by (simp add: derive_container[OF d m])
next
  fix st :: lookup and doc ds ms
  assume "Docs (Response (resp st)) = doc # ds \<and> Model doc = ''MediaObject'' # ms"
  then show "fst (ariesLookup_derive cfg net dec st) = calls st"
    by (simp add: derive_container[of st doc ds ms])
qed

theorem container_example_witness:
  "primary_response cfg_demo (net_always (Get_response 200 ''{container}'')) dec_demo ''abc123''
     = Some (hits 1 [doc_container]) \<and>
   ID doc_container = ''abc123'' \<and> Model doc_container = ''MediaObject'' # [] \<and>
   IdentifierSSIM doc_container = [] \<and>
   (\<exists>out. ariesLookup cfg_demo (net_always (Get_response 200 ''{container}'')) dec_demo ''abc123'' =
            ([primaryURL cfg_demo ''abc123''], c_JSON 200 out) \<and>
      Identifiers out = [''abc123''] \<and>
      AccessURL out = [''http://avalon/media_objects/abc123''] \<and>
      AdminURL out = [''http://avalon/media_objects/abc123/edit''] \<and>
      MetadataURL out = [''http://avalon/media_objects/abc123/content/descMetadata''] \<and>
      DerivativeFile out = []) \<and>
   fst (ariesLookup_derive cfg_demo (net_always (Get_response 200 ''{container}'')) dec_demo
          \<lparr>qs = primaryQS ''abc123'', urlStr = primaryURL cfg_demo ''abc123'',
           resp = hits 1 [doc_container], calls = [primaryURL cfg_demo ''abc123'']\<rparr>)
     = [primaryURL cfg_demo ''abc123'']"
proof -
  let ?net = "net_always (Get_response 200 ''{container}'')"
  let ?st = "\<lparr>qs = primaryQS ''abc123'', urlStr = primaryURL cfg_demo ''abc123'',
           resp = hits 1 [doc_container], calls = [primaryURL cfg_demo ''abc123'']\<rparr>"
  have p: "primary_response cfg_demo ?net dec_demo ''abc123'' = Some (hits 1 [doc_container])"
    by code_simp
  have r: "NumFound (Response (hits 1 [doc_container])) = 1"
    "Docs (Response (hits 1 [doc_container])) = [doc_container]"
    by (simp_all add: hits_def)
  have d: "ID doc_container = ''abc123''" "Model doc_container = ''MediaObject'' # []"
    "IdentifierSSIM doc_container = []"
    by (simp_all add: doc_container_def)
  have s: "Docs (Response (resp ?st)) = doc_container # []"
    by (simp add: hits_def)
  note T = container_example [of cfg_demo ?net dec_demo]
  from T p r d have a: "\<exists>out. ariesLookup cfg_demo ?net dec_demo ''abc123'' =
            ([primaryURL cfg_demo ''abc123''], c_JSON 200 out) \<and>
      Identifiers out = [''abc123''] \<and>
      AccessURL out = [avalonURL cfg_demo @ ''/media_objects/abc123''] \<and>
      AdminURL out = [avalonURL cfg_demo @ ''/media_objects/abc123/edit''] \<and>
      MetadataURL out = [avalonURL cfg_demo @ ''/media_objects/abc123/content/descMetadata''] \<and>
      DerivativeFile out = []"
    by blast
  from T s d(2) have b: "fst (ariesLookup_derive cfg_demo ?net dec_demo ?st) = calls ?st"
    by blast
  from a have a': "\<exists>out. ariesLookup cfg_demo ?net dec_demo ''abc123'' =
            ([primaryURL cfg_demo ''abc123''], c_JSON 200 out) \<and>
      Identifiers out = [''abc123''] \<and>
      AccessURL out = [''http://avalon/media_objects/abc123''] \<and>
      AdminURL out = [''http://avalon/media_objects/abc123/edit''] \<and>
      MetadataURL out = [''http://avalon/media_objects/abc123/content/descMetadata''] \<and>
      DerivativeFile out = []"
    by (simp add: cfg_demo_def)
  from b have b': "fst (ariesLookup_derive cfg_demo ?net dec_demo ?st) = [primaryURL cfg_demo ''abc123'']"
    by simp
  from p d a' b' show ?thesis
    by blast
qed

section \<open>Members and their derivatives\<close>

lemma failed_request_no_derivatives:
  assumes "snd (getAPIResponse net (derivativeURL cfg d)) \<noteq> None"
  shows "derivative_response cfg net dec d r0 = None"
proof -
  from assms have "fst (getAPIResponse net (derivativeURL cfg d)) = []"
    by (auto simp add: getAPIResponse_def split: http_result.splits if_splits)
  then show ?thesis
    by (simp add: derivative_response_def json_Unmarshal_def)
qed

text \<open>
  What the loop collects, for every network and decoder. When the search ends with one
  hit whose document is a member (its first model is not \<open>MediaObject\<close> and it has a
  parent), the lookup requests the derivatives of the document and answers 200. The
  derivative files of the response are the non-empty \<^verbatim>\<open>DerivativeFile\<close> fields of the
  documents that \<^verbatim>\<open>resp\<close> holds after the derivative body was decoded into it, in their
  order; they are none when that body did not decode, and in particular when the
  request failed.
\<close>

lemma derivatives_of_decoded_response:
  assumes "ariesLookup_search cfg net dec pid = Inr st"
    and "NumFound (Response (resp st)) = 1"
    and "Docs (Response (resp st)) = doc # ds"
    and "Model doc = m # ms" and "m \<noteq> ''MediaObject''" and "PartOf doc = p # ps"
  shows "\<exists>out. ariesLookup cfg net dec pid =
                 (calls st @ [derivativeURL cfg (ID doc)], c_JSON 200 out) \<and>
           DerivativeFile out =
             (case derivative_response cfg net dec (ID doc) (resp st) of
                None \<Rightarrow> []
              | Some r3 \<Rightarrow> map DerivativeFile_ssi
                            (filter (\<lambda>d. DerivativeFile_ssi d \<noteq> []) (Docs (Response r3)))) \<and>
           length (DerivativeFile out) =
             (case derivative_response cfg net dec (ID doc) (resp st) of
                None \<Rightarrow> 0
              | Some r3 \<Rightarrow> length (filter (\<lambda>d. DerivativeFile_ssi d \<noteq> []) (Docs (Response r3)))) \<and>
           (snd (getAPIResponse net (derivativeURL cfg (ID doc))) \<noteq> None \<longrightarrow>
              DerivativeFile out = [])"
proof -
  have fm: "filter (\<lambda>f. f \<noteq> []) (map DerivativeFile_ssi xs) =
            map DerivativeFile_ssi (filter (\<lambda>d. DerivativeFile_ssi d \<noteq> []) xs)" for xs
    by (induction xs) simp_all
  from assms(1,2) have look: "ariesLookup cfg net dec pid = ariesLookup_derive cfg net dec st"
    by (simp add: ariesLookup_def)
  note d = derive_member[OF assms(3) assms(4) assms(5) assms(6), of cfg net dec]
  have files: "DerivativeFile (case snd (ariesLookup_derive cfg net dec st) of c_JSON code out \<Rightarrow> out) =
      (case derivative_response cfg net dec (ID doc) (resp st) of
                None \<Rightarrow> []
              | Some r3 \<Rightarrow> map DerivativeFile_ssi
                            (filter (\<lambda>d. DerivativeFile_ssi d \<noteq> []) (Docs (Response r3))))"
    by (simp add: d derivative_response_def fm split: prod.split option.split)
  obtain out where o: "ariesLookup_derive cfg net dec st =
      (calls st @ [derivativeURL cfg (ID doc)], c_JSON 200 out)"
    using d by simp
  with files have f: "DerivativeFile out =
      (case derivative_response cfg net dec (ID doc) (resp st) of
                None \<Rightarrow> []
              | Some r3 \<Rightarrow> map DerivativeFile_ssi
                            (filter (\<lambda>d. DerivativeFile_ssi d \<noteq> []) (Docs (Response r3))))"
    by simp
  then have len: "length (DerivativeFile out) =
             (case derivative_response cfg net dec (ID doc) (resp st) of
                None \<Rightarrow> 0
              | Some r3 \<Rightarrow> length (filter (\<lambda>d. DerivativeFile_ssi d \<noteq> []) (Docs (Response r3))))"
    by (simp split: option.split)
  from f have fail: "snd (getAPIResponse net (derivativeURL cfg (ID doc))) \<noteq> None \<longrightarrow>
              DerivativeFile out = []"
    by (simp add: failed_request_no_derivatives)
  from look o f len fail show ?thesis
    by simp
qed

text \<open>
  With the decoder of \<^verbatim>\<open>encoding/json\<close> the documents that \<^verbatim>\<open>resp\<close> holds are the
  returned records unless an old document shows through: when no document of the old
  value has a derivative file, decoding a body leaves exactly the files of its records.
\<close>

lemma decode_doc_file:
  "DerivativeFile_ssi d = [] \<Longrightarrow>
   (if DerivativeFile_ssi (decode_doc j d) \<noteq> [] then [DerivativeFile_ssi (decode_doc j d)] else [])
     = file_of j"
  by (simp add: decode_doc_def store_def file_of_def split: option.split)

lemma decode_docs_files:
  "\<forall>d \<in> set old. DerivativeFile_ssi d = [] \<Longrightarrow>
   filter (\<lambda>f. f \<noteq> []) (map DerivativeFile_ssi (decode_docs js old)) = concat (map file_of js)"
proof (induction js old rule: decode_docs.induct)
  case (1 old)
  show ?case by simp
next
  case (2 j js)
  have "DerivativeFile_ssi zero_solrDoc = []"
    by (simp add: zero_solrDoc_def)
  from decode_doc_file[OF this, of j] 2 show ?case
    by (simp split: if_splits)
next
  case (3 j js d ds)
  then have "DerivativeFile_ssi d = []"
    by simp
  from decode_doc_file[OF this, of j] 3 show ?case
    by (simp split: if_splits)
qed

text \<open>
  So for a member whose decoded response holds no derivative file, the derivative files
  of the response are those of the records the derivative query returned, in order.
\<close>

lemma derivatives_of_returned_records:
  assumes "ariesLookup_search cfg net (go_decoder parse) pid = Inr st"
    and "NumFound (Response (resp st)) = 1"
    and "Docs (Response (resp st)) = doc # ds"
    and "Model doc = m # ms" and "m \<noteq> ''MediaObject''" and "PartOf doc = p # ps"
    and old: "\<forall>d \<in> set (Docs (Response (resp st))). DerivativeFile_ssi d = []"
    and body: "getAPIResponse net (derivativeURL cfg (ID doc)) = (body, None)" "body \<noteq> []"
    and j: "parse body = Inr j"
  shows "\<exists>out. ariesLookup cfg net (go_decoder parse) pid =
                 (calls st @ [derivativeURL cfg (ID doc)], c_JSON 200 out) \<and>
           DerivativeFile out = returned_files j"
proof -
  from body j have r: "derivative_response cfg net (go_decoder parse) (ID doc) (resp st) =
      Some (decode_body j (resp st))"
    by (simp add: derivative_response_def json_Unmarshal_def go_decoder_def)
  have files: "map DerivativeFile_ssi
      (filter (\<lambda>d. DerivativeFile_ssi d \<noteq> []) (Docs (Response (decode_body j (resp st)))))
      = returned_files j"
  proof (cases "j_docs j")
    case None
    from old have "filter (\<lambda>d. DerivativeFile_ssi d \<noteq> []) (Docs (Response (resp st))) = []"
      by (simp add: filter_empty_conv)
    with None show ?thesis
      by (simp add: decode_body_def returned_files_def)
  next
    case (Some js)
    have fm: "map DerivativeFile_ssi (filter (\<lambda>d. DerivativeFile_ssi d \<noteq> []) xs)
        = filter (\<lambda>f. f \<noteq> []) (map DerivativeFile_ssi xs)" for xs
      by (induction xs) simp_all
    from Some have "Docs (Response (decode_body j (resp st)))
        = decode_docs js (Docs (Response (resp st)))"
      by (simp add: decode_body_def)
    then have "map DerivativeFile_ssi
        (filter (\<lambda>d. DerivativeFile_ssi d \<noteq> []) (Docs (Response (decode_body j (resp st)))))
        = concat (map file_of js)"
      using decode_docs_files[OF old, of js] by (simp only: fm)
    with Some show ?thesis
      by (simp add: returned_files_def)
  qed
  from derivatives_of_decoded_response[OF assms(1-6)] r files show ?thesis
    by auto
qed


section \<open>Documents that are neither container nor member\<close>

text \<open>
  C7. The handler reads \<^verbatim>\<open>doc.Model[0]\<close> and, outside the container branch,
  \<^verbatim>\<open>doc.PartOf[0]\<close> without a test of the lengths. Building the response panics
  exactly for a response without documents, a document without a model, and a document
  whose first model is not \<open>MediaObject\<close> and which has no parent (lemma
  \<open>derive_panic\<close>). The lookup of a collection, which the index holds with the
  model \<open>Admin::Collection\<close> and no \<^verbatim>\<open>isPartOf_ssim\<close>, is such a run: one hit, and the
  handler panics at \<^verbatim>\<open>doc.PartOf[0]\<close> instead of answering.
\<close>

theorem collection_record_panics:
  "primary_response cfg_demo (net_always (Get_response 200 ''{collection}'')) dec_demo ''col1''
     = Some (hits 1 [doc_collection]) \<and>
   Model doc_collection = [''Admin::Collection''] \<and> PartOf doc_collection = [] \<and>
   ariesLookup cfg_demo (net_always (Get_response 200 ''{collection}'')) dec_demo ''col1'' =
     ([primaryURL cfg_demo ''col1''], panic)"
  by code_simp

section \<open>The service descriptor\<close>

text \<open>
  C8, as the code has it. Every response carries exactly one service descriptor, with
  the protocol \<open>avalon-index\<close>. Its URL is the select URL of the index with the
  escaped query that retrieved the document and nothing after it: the URL that was
  requested is this URL followed by \<^verbatim>\<open>&wt=json&indent=true\<close> and the field list. The
  query is the fallback query when the primary query reported no hit, the primary
  query otherwise.
\<close>

theorem service_url_of_retrieving_query:
  assumes "ariesLookup cfg net dec pid = (tr, c_JSON code out)"
  shows "\<exists>st. ariesLookup_search cfg net dec pid = Inr st \<and>
           ServiceURL out =
             [\<lparr>URL = solrURL cfg @ ''/'' @ solrCore cfg @ ''/select?q='' @ qs st,
               Protocol = ''avalon-index''\<rparr>] \<and>
           urlStr st = solrURL cfg @ ''/'' @ solrCore cfg @ ''/select?q='' @ qs st
                         @ ''&wt=json&indent=true'' @ lookup_fl \<and>
           urlStr st = last (calls st) \<and>
           qs st = (if primary_zero cfg net dec pid then fallbackQS pid else primaryQS pid)"
proof -
  from assms obtain st where st: "ariesLookup_search cfg net dec pid = Inr st"
    and d: "ariesLookup_derive cfg net dec st = (tr, c_JSON code out)"
    using lookup_json by blast
  from derive_json[OF d] have s: "ServiceURL out =
             [\<lparr>URL = solrURL cfg @ ''/'' @ solrCore cfg @ ''/select?q='' @ qs st,
               Protocol = ''avalon-index''\<rparr>]"
    by (auto simp add: svc_def)
  from search_Inr[OF st] have "urlStr st = selectURL cfg (qs st) lookup_fl"
    by blast
  then have u: "urlStr st = solrURL cfg @ ''/'' @ solrCore cfg @ ''/select?q='' @ qs st
                         @ ''&wt=json&indent=true'' @ lookup_fl"
    by (simp add: selectURL_def)
  from search_Inr[OF st] have l: "urlStr st = last (calls st)"
    by blast
  from search_Inr[OF st]
  have q: "qs st = (if primary_zero cfg net dec pid then fallbackQS pid else primaryQS pid)"
    by (cases "primary_zero cfg net dec pid") simp_all
  from st s u l q show ?thesis
    by blast
qed

theorem service_url_of_retrieving_query_witness:
  "ariesLookup cfg_demo net_fallback dec_demo ''alt-1'' =
     ([primaryURL cfg_demo ''alt-1'', fallbackURL cfg_demo ''alt-1'', derivativeURL cfg_demo ''mf1''],
      c_JSON 200 (out_member ''identifier_ssim%3A%22alt-1%22''
                    [''/derivatives/high.mp4'', ''/derivatives/low.mp4''])) \<and>
   primary_zero cfg_demo net_fallback dec_demo ''alt-1'' \<and>
   (\<exists>st. ariesLookup_search cfg_demo net_fallback dec_demo ''alt-1'' = Inr st \<and>
      ServiceURL (out_member ''identifier_ssim%3A%22alt-1%22''
                    [''/derivatives/high.mp4'', ''/derivatives/low.mp4'']) =
        [\<lparr>URL = ''http://solr/avalon/select?q='' @ qs st, Protocol = ''avalon-index''\<rparr>] \<and>
      urlStr st = ''http://solr/avalon/select?q='' @ qs st @ ''&wt=json&indent=true'' @ lookup_fl \<and>
      urlStr st = last (calls st) \<and>
      qs st = fallbackQS ''alt-1'')"
proof -
  have run: "ariesLookup cfg_demo net_fallback dec_demo ''alt-1'' =
     ([primaryURL cfg_demo ''alt-1'', fallbackURL cfg_demo ''alt-1'', derivativeURL cfg_demo ''mf1''],
      c_JSON 200 (out_member ''identifier_ssim%3A%22alt-1%22''
                    [''/derivatives/high.mp4'', ''/derivatives/low.mp4'']))"
    by code_simp
  have z: "primary_zero cfg_demo net_fallback dec_demo ''alt-1''"
    by code_simp
  from service_url_of_retrieving_query [OF run] z
  have "\<exists>st. ariesLookup_search cfg_demo net_fallback dec_demo ''alt-1'' = Inr st \<and>
      ServiceURL (out_member ''identifier_ssim%3A%22alt-1%22''
                    [''/derivatives/high.mp4'', ''/derivatives/low.mp4'']) =
        [\<lparr>URL = ''http://solr/avalon/select?q='' @ qs st, Protocol = ''avalon-index''\<rparr>] \<and>
      urlStr st = ''http://solr/avalon/select?q='' @ qs st @ ''&wt=json&indent=true'' @ lookup_fl \<and>
      urlStr st = last (calls st) \<and>
      qs st = fallbackQS ''alt-1''"
    by (simp add: cfg_demo_def)
  with run z show ?thesis
    by blast
qed

text \<open>
  C8 as the specification words it fails: for the media object \<open>abc123\<close> the URL of
  the descriptor is neither the URL that was requested nor the escaped query.
\<close>

theorem service_url_counterexample:
  "fst (ariesLookup cfg_demo (net_always (Get_response 200 ''{container}'')) dec_demo ''abc123'') =
     [''http://solr/avalon/select?q=id%3A%22abc123%22&wt=json&indent=true&fl=id,identifier_ssim,file_location_ssi,has_model_ssim,isPartOf_ssim''] \<and>
   snd (ariesLookup cfg_demo (net_always (Get_response 200 ''{container}'')) dec_demo ''abc123'') =
     c_JSON 200 out_container \<and>
   service_urls (c_JSON 200 out_container) = [''http://solr/avalon/select?q=id%3A%22abc123%22''] \<and>
   service_urls (c_JSON 200 out_container) \<noteq>
     fst (ariesLookup cfg_demo (net_always (Get_response 200 ''{container}'')) dec_demo ''abc123'') \<and>
   primaryQS ''abc123'' = ''id%3A%22abc123%22'' \<and>
   service_urls (c_JSON 200 out_container) \<noteq> [primaryQS ''abc123'']"
  by code_simp

section \<open>The health check\<close>

lemma healthCheckHandler_eq:
  "healthCheckHandler cfg net =
     c_JSON 200 [''AriesAvalon'' \<mapsto> ''true'', ''Avalon'' \<mapsto> ping_status (net (pingURL cfg))]"
  by (simp add: healthCheckHandler_def getAPIResponse_def ping_status_def
      split: http_result.split)

text \<open>
  C9, as the code has it. The handler answers 200 with the two entries; the entry
  \<open>Avalon\<close> is \<open>true\<close> when the ping came back with status 200, and \<open>false\<close> for
  every other status and for every transport error (a timeout is one).
\<close>

theorem healthCheck_reports_ping:
  "healthCheckHandler cfg net =
     c_JSON 200 [''AriesAvalon'' \<mapsto> ''true'',
       ''Avalon'' \<mapsto> (case net (pingURL cfg) of
                      Get_error e \<Rightarrow> ''false''
                    | Get_response code body \<Rightarrow> if code = 200 then ''true'' else ''false'')]"
  using healthCheckHandler_eq [of cfg net] by (simp add: ping_status_def)

text \<open>
  C9 as the specification words it fails: status 204 is a 2xx status, and the handler
  reports \<open>false\<close> for it.
\<close>

theorem healthCheck_204_counterexample:
  "net_204 (pingURL cfg_demo) = Get_response 204 [] \<and> (200::nat) \<le> 204 \<and> (204::nat) < 300 \<and>
   healthCheckHandler cfg_demo net_204 =
     c_JSON 200 [''AriesAvalon'' \<mapsto> ''true'', ''Avalon'' \<mapsto> ''false'']"
  by (simp add: healthCheckHandler_def getAPIResponse_def net_204_def)

text \<open>
  C10. Whatever the index does, the handler answers 200 with a map of exactly the two
  keys, \<open>AriesAvalon\<close> is \<open>true\<close>, and two runs against different networks differ at
  most in the entry \<open>Avalon\<close>.
\<close>

theorem healthCheck_always_200:
  "\<exists>m m'. healthCheckHandler cfg net = c_JSON 200 m \<and>
           m ''AriesAvalon'' = Some ''true'' \<and>
           dom m = {''AriesAvalon'', ''Avalon''} \<and>
           healthCheckHandler cfg net' = c_JSON 200 m' \<and>
           m' |` (- {''Avalon''}) = m |` (- {''Avalon''})"
proof -
  let ?m = "[''AriesAvalon'' \<mapsto> ''true'', ''Avalon'' \<mapsto> ping_status (net (pingURL cfg))]"
  let ?m' = "[''AriesAvalon'' \<mapsto> ''true'', ''Avalon'' \<mapsto> ping_status (net' (pingURL cfg))]"
  have same: "?m' |` (- {''Avalon''}) = ?m |` (- {''Avalon''})"
    by (rule ext) (simp add: restrict_map_def)
  have keys: "dom ?m = {''AriesAvalon'', ''Avalon''}"
    by auto
  have here: "healthCheckHandler cfg net = c_JSON 200 ?m"
    by (rule healthCheckHandler_eq)
  have there: "healthCheckHandler cfg net' = c_JSON 200 ?m'"
    by (rule healthCheckHandler_eq)
  have own: "?m ''AriesAvalon'' = Some ''true''"
    by simp
  from here own keys there same show ?thesis
    by blast
qed

end
